theory Spec2Isabelle
  imports Main "HOL-Library.Word"
begin

section \<open>omni\_httpd: the exported functions of \<^verbatim>\<open>omni_httpd.c\<close>\<close>

text \<open>
  The development embeds the four SQL-callable entry points of \<^verbatim>\<open>omni_httpd.c\<close>
  (\<^verbatim>\<open>reload_configuration\<close>, \<^verbatim>\<open>http_response\<close> with its helper \<^verbatim>\<open>add_header\<close>, and
  \<^verbatim>\<open>handlers_query_validity_trigger\<close>) as HOL functions. An \<^verbatim>\<open>ereport(ERROR, ...)\<close> is
  the left injection of a sum; a Datum that may be SQL NULL is an option.
\<close>

subsection \<open>Errors\<close>

type_synonym Oid = nat

text \<open>A C \<^verbatim>\<open>int\<close> or \<^verbatim>\<open>int32\<close>: 32 bits, read in two's complement by \<open>sint\<close>.\<close>

type_synonym int32 = "32 word"

datatype error =
    IntegerOutOfRange
  | CantCastToBytea Oid
  | QueryCantBeNull
  | OnlyOneStatement
  | InvalidQuery string
  | OnlyAsTrigger
  | ParseFailure string
  | WrongNumberOfSubscripts
  | ArraySubscriptOutOfRange
  | ArraySizeExceeded
  | ArrayLowerBoundTooLarge

text \<open>
  The message each \<^verbatim>\<open>errmsg\<close> call of the source carries. \<open>CantCastToBytea\<close> is the
  default arm of the body-type switch (the \<^verbatim>\<open>%s\<close> is the type's name, which the
  external \<^verbatim>\<open>format_type_extended\<close> prints). \<open>ParseFailure\<close> stands for what the
  parser of \<^verbatim>\<open>omni_sql\<close> raises, and the four array errors are the ones that
  PostgreSQL's \<^verbatim>\<open>array_set_element\<close> raises.
\<close>

fun errmsg :: "error \<Rightarrow> string" where
  "errmsg IntegerOutOfRange = ''integer out of range''"
| "errmsg (CantCastToBytea t) = ''Can't (yet) cast %s to bytea''"
| "errmsg QueryCantBeNull = ''query can't be null''"
| "errmsg OnlyOneStatement = ''query can only contain one statement''"
| "errmsg (InvalidQuery detail) = ''invalid query''"
| "errmsg OnlyAsTrigger = ''can only be called as a trigger''"
| "errmsg (ParseFailure m) = m"
| "errmsg WrongNumberOfSubscripts = ''wrong number of array subscripts''"
| "errmsg ArraySubscriptOutOfRange = ''array subscript out of range''"
| "errmsg ArraySizeExceeded = ''array size exceeds the maximum allowed''"
| "errmsg ArrayLowerBoundTooLarge = ''array lower bound is too large''"

subsection \<open>Headers and header arrays\<close>

text \<open>
  A value of the composite type \<^verbatim>\<open>http_header\<close>: name, value and the append flag, each
  of which SQL allows to be NULL.
\<close>

record http_header =
  header_name :: "string option"
  header_value :: "string option"
  header_append :: "bool option"

text \<open>
  A PostgreSQL array of \<^verbatim>\<open>http_header\<close>: the dimensions and lower bounds (C \<^verbatim>\<open>int\<close>,
  one entry per dimension, none for an empty array) and the elements in storage order,
  \<open>None\<close> for a NULL element.
\<close>

record array_type =
  dims :: "int32 list"
  lbound :: "int32 list"
  elems :: "http_header option list"

subsection \<open>External functions of PostgreSQL and libc\<close>

text \<open>
  \<^verbatim>\<open>pg_add_s32_overflow(a, b, &result)\<close> of \<^verbatim>\<open>common/int.h\<close>: \<open>None\<close> when the sum
  leaves the range of a signed 32-bit integer (the C function returns true), the sum
  otherwise.
\<close>

definition pg_add_s32_overflow :: "int32 \<Rightarrow> int32 \<Rightarrow> int32 option" where
  "pg_add_s32_overflow a b =
     (let res = sint a + sint b
      in if res > 2147483647 \<or> res < - 2147483648 then None else Some (word_of_int res))"

text \<open>\<^verbatim>\<open>MaxArraySize\<close> is \<^verbatim>\<open>MaxAllocSize / sizeof(Datum)\<close> on a 64-bit build.\<close>

definition MaxArraySize :: int where
  "MaxArraySize = 134217727"

text \<open>
  \<^verbatim>\<open>array_set_element\<close> of \<^verbatim>\<open>arrayfuncs.c\<close> with one subscript, on an expanded array:
  an empty array becomes a one-element array whose lower bound is the subscript; an
  array of another dimensionality is refused; a one-dimensional array is extended in
  front of its first element or behind its last one (the gap filled with NULLs), or
  has the element at the subscript replaced. The dimensions that result are checked as
  \<^verbatim>\<open>ArrayGetNItems\<close> and \<^verbatim>\<open>ArrayCheckBounds\<close> check them.
\<close>

definition array_set_element ::
  "array_type \<Rightarrow> int32 \<Rightarrow> http_header option \<Rightarrow> error + array_type" where
  "array_set_element a indx v =
     (case (dims a, lbound a) of
        ([], _) \<Rightarrow>
          if sint indx + 1 > 2147483647 then Inl ArrayLowerBoundTooLarge
          else Inr \<lparr>dims = [1], lbound = [indx], elems = [v]\<rparr>
      | ([dim], [lb]) \<Rightarrow>
          if sint indx < sint lb then
            (let addedbefore = sint lb - sint indx; dim' = sint dim + addedbefore
             in if dim' > MaxArraySize then Inl ArraySizeExceeded
                else if sint indx + dim' > 2147483647 then Inl ArrayLowerBoundTooLarge
                else Inr \<lparr>dims = [word_of_int dim'], lbound = [indx],
                          elems = v # replicate (nat (addedbefore - 1)) None @ elems a\<rparr>)
          else if sint indx \<ge> sint dim + sint lb then
            (let addedafter = sint indx - (sint dim + sint lb) + 1; dim' = sint dim + addedafter
             in if dim' > MaxArraySize then Inl ArraySizeExceeded
                else if sint lb + dim' > 2147483647 then Inl ArrayLowerBoundTooLarge
                else Inr \<lparr>dims = [word_of_int dim'], lbound = [lb],
                          elems = elems a @ replicate (nat (addedafter - 1)) None @ [v]\<rparr>)
          else Inr (a\<lparr>elems := (elems a)[nat (sint indx - sint lb) := v]\<rparr>)
      | _ \<Rightarrow> Inl WrongNumberOfSubscripts)"

text \<open>
  \<^verbatim>\<open>tolower\<close> in the C locale, and \<^verbatim>\<open>strncasecmp(s1, s2, n)\<close>: at most \<open>n\<close> bytes
  are compared, and the comparison stops behind a NUL. A pointer into a string is the
  list of the bytes from it on; the byte behind the last one of a C string is its NUL.
\<close>

definition tolower :: "char \<Rightarrow> char" where
  "tolower c = (let k = (of_char c :: nat)
                in if 65 \<le> k \<and> k \<le> 90 then char_of (k + 32) else c)"

definition deref :: "string \<Rightarrow> char" where
  "deref p = (case p of [] \<Rightarrow> CHR 0x00 | c # _ \<Rightarrow> c)"

fun strncasecmp :: "string \<Rightarrow> string \<Rightarrow> nat \<Rightarrow> int" where
  "strncasecmp p1 p2 0 = 0"
| "strncasecmp p1 p2 (Suc n) =
     (let c1 = tolower (deref p1); c2 = tolower (deref p2)
      in if c1 \<noteq> c2 then int (of_char c1) - int (of_char c2)
         else if deref p1 = CHR 0x00 then 0
         else strncasecmp (tl p1) (tl p2) n)"

subsection \<open>\<^verbatim>\<open>add_header\<close>\<close>

text \<open>
  The header tuple is formed with no NULL field. Without a header array
  (\<^verbatim>\<open>headers == 0\<close>) the result is a new one-dimensional array of one element with
  lower bound 1. Otherwise the subscript is \<^verbatim>\<open>lb[0] + dimv[0]\<close>, computed with the
  overflow check, and the element is stored there by \<^verbatim>\<open>array_set_element\<close>.

  \<^verbatim>\<open>lb[0]\<close> and \<^verbatim>\<open>dimv[0]\<close> are read through \<^verbatim>\<open>eah->lbound\<close> and \<^verbatim>\<open>eah->dims\<close>
  with no look at the number of dimensions. For an array that has a dimension they
  are its first lower bound and its first dimension. An empty array has none, and
  the two reads find what lies in memory behind the header of the array. Nothing in
  the program determines these two ints: they are the parameter \<open>beyond\<close>, the
  first for \<^verbatim>\<open>lb[0]\<close> and the second for \<^verbatim>\<open>dimv[0]\<close>.
\<close>

definition add_header ::
  "int32 \<times> int32 \<Rightarrow> array_type option \<Rightarrow> string \<Rightarrow> string \<Rightarrow> bool \<Rightarrow> error + array_type" where
  "add_header beyond headers name val append_flag =
     (let header = \<lparr>header_name = Some name, header_value = Some val,
                    header_append = Some append_flag\<rparr>
      in case headers of
           None \<Rightarrow> Inr \<lparr>dims = [1], lbound = [1], elems = [Some header]\<rparr>
         | Some eah \<Rightarrow>
             (let lb0 = (case lbound eah of [] \<Rightarrow> fst beyond | l # _ \<Rightarrow> l);
                  dimv0 = (case dims eah of [] \<Rightarrow> snd beyond | d # _ \<Rightarrow> d)
              in case pg_add_s32_overflow lb0 dimv0 of
                   None \<Rightarrow> Inl IntegerOutOfRange
                 | Some indx \<Rightarrow> array_set_element eah indx (Some header)))"

subsection \<open>\<^verbatim>\<open>http_response\<close>\<close>

definition TEXTOID :: Oid where "TEXTOID = 25"
definition VARCHAROID :: Oid where "VARCHAROID = 1043"
definition CHAROID :: Oid where "CHAROID = 18"
definition BYTEAOID :: Oid where "BYTEAOID = 17"
definition JSONOID :: Oid where "JSONOID = 114"
definition JSONBOID :: Oid where "JSONBOID = 3802"

text \<open>The composite type \<^verbatim>\<open>http_response\<close>; \<open>'d\<close> is the Datum of the body.\<close>

record 'd response =
  response_status :: "int32"
  response_headers :: "array_type option"
  response_body :: "'d option"

text \<open>
  The loop over the header array: NULL elements and headers with a NULL name are
  skipped, and the first name for which \<^verbatim>\<open>strncasecmp\<close>, bounded by the length of
  the name, returns 0 ends the loop with \<^verbatim>\<open>has_content_type = true\<close>.
\<close>

fun has_content_type_loop :: "http_header option list \<Rightarrow> bool" where
  "has_content_type_loop [] = False"
| "has_content_type_loop (None # rest) = has_content_type_loop rest"
| "has_content_type_loop (Some tuple # rest) =
     (case header_name tuple of
        None \<Rightarrow> has_content_type_loop rest
      | Some name_str \<Rightarrow>
          if strncasecmp name_str ''content-type'' (length name_str) = 0 then True
          else has_content_type_loop rest)"

definition has_content_type :: "array_type option \<Rightarrow> bool" where
  "has_content_type headers =
     (case headers of None \<Rightarrow> False | Some a \<Rightarrow> has_content_type_loop (elems a))"

text \<open>
  The arm shared by the body types: the header is added when no content type was
  found, and the response tuple is formed from the three values. Its headers are
  NULL exactly when the Datum is 0, its body is the one given.
\<close>

definition infer_content_type ::
  "int32 \<times> int32 \<Rightarrow> int32 \<Rightarrow> array_type option \<Rightarrow> 'd \<Rightarrow> string \<Rightarrow> error + 'd response" where
  "infer_content_type beyond status headers body_value content_type =
     (if \<not> has_content_type headers then
        (case add_header beyond headers ''content-type'' content_type False of
           Inl e \<Rightarrow> Inl e
         | Inr headers' \<Rightarrow>
             Inr \<lparr>response_status = status, response_headers = Some headers',
                  response_body = Some body_value\<rparr>)
      else Inr \<lparr>response_status = status, response_headers = headers,
                response_body = Some body_value\<rparr>)"

text \<open>
  \<^verbatim>\<open>http_response(status, headers, body)\<close>. The two functions of PostgreSQL that the
  jsonb arm calls are parameters: \<open>JsonbToCString\<close> prints the jsonb value behind a
  Datum, \<open>cstring_to_text\<close> makes the text Datum of a C string. \<open>body_element_type\<close> is
  what \<^verbatim>\<open>get_fn_expr_argtype(fcinfo->flinfo, 2)\<close> returns, and \<open>beyond\<close> is handed to
  \<^verbatim>\<open>add_header\<close>. The jsonb arm replaces the body and falls through into the json
  arm.
\<close>

definition http_response ::
  "('d \<Rightarrow> string) \<Rightarrow> (string \<Rightarrow> 'd) \<Rightarrow> int32 \<times> int32 \<Rightarrow>
   int32 option \<Rightarrow> array_type option \<Rightarrow> 'd option \<Rightarrow> Oid \<Rightarrow> error + 'd response" where
  "http_response JsonbToCString cstring_to_text beyond
       arg_status arg_headers arg_body body_element_type =
     (let status = (case arg_status of None \<Rightarrow> 200 | Some s \<Rightarrow> s)
      in case arg_body of
           None \<Rightarrow> Inr \<lparr>response_status = status, response_headers = arg_headers,
                        response_body = None\<rparr>
         | Some body_value \<Rightarrow>
             if body_element_type = TEXTOID \<or> body_element_type = VARCHAROID
                \<or> body_element_type = CHAROID then
               infer_content_type beyond status arg_headers body_value ''text/plain; charset=utf-8''
             else if body_element_type = BYTEAOID then
               infer_content_type beyond status arg_headers body_value ''application/octet-stream''
             else if body_element_type = JSONBOID then
               infer_content_type beyond status arg_headers
                 (cstring_to_text (JsonbToCString body_value)) ''text/json''
             else if body_element_type = JSONOID then
               infer_content_type beyond status arg_headers body_value ''text/json''
             else Inl (CantCastToBytea body_element_type))"

subsection \<open>\<^verbatim>\<open>reload_configuration\<close>\<close>

text \<open>
  What a call can change in the backend: the notifications pending for the commit of
  the transaction, as (channel, payload) pairs, and the \<^verbatim>\<open>pg_atomic_uint32\<close> that
  \<^verbatim>\<open>_Dynpgext_init\<close> allocates in shared memory under the name
  \<^verbatim>\<open>OMNI_HTTPD_CONFIGURATION_RELOAD_SEMAPHORE\<close>.
\<close>

record backend =
  notifications :: "(string \<times> string option) list"
  semaphore :: "32 word"

definition init_semaphore :: "backend \<Rightarrow> backend" where
  "init_semaphore st = st\<lparr>semaphore := 0\<rparr>"

text \<open>
  \<^verbatim>\<open>Async_Notify(channel, payload)\<close> of \<^verbatim>\<open>commands/async.c\<close> queues the notification
  unless the same one is pending already.
\<close>

definition Async_Notify :: "string \<Rightarrow> string option \<Rightarrow> backend \<Rightarrow> backend" where
  "Async_Notify channel payload st =
     (if (channel, payload) \<in> set (notifications st) then st
      else st\<lparr>notifications := notifications st @ [(channel, payload)]\<rparr>)"

text \<open>
  The \<^verbatim>\<open>TriggerData\<close> behind \<^verbatim>\<open>fcinfo->context\<close>, as far as the functions read it.
  \<^verbatim>\<open>tg_newtuple\<close> is a null pointer unless the trigger fires for an UPDATE. A call
  that is not a trigger call has no such context.
\<close>

record 't trigger_data =
  tg_trigtuple :: 't
  tg_newtuple :: "'t option"

datatype 't result_datum = PointerDatum "'t option" | BoolDatum bool

text \<open>
  The channel name is the macro \<^verbatim>\<open>OMNI_HTTPD_CONFIGURATION_NOTIFY_CHANNEL\<close> of
  \<^verbatim>\<open>omni_httpd.h\<close>, a parameter here.
\<close>

definition reload_configuration ::
  "string \<Rightarrow> 't trigger_data option \<Rightarrow> backend \<Rightarrow> 't result_datum \<times> backend" where
  "reload_configuration NOTIFY_CHANNEL context st =
     (let st' = Async_Notify NOTIFY_CHANNEL None st
      in case context of
           Some trigger \<Rightarrow> (PointerDatum (tg_newtuple trigger), st')
         | None \<Rightarrow> (BoolDatum True, st'))"

subsection \<open>\<^verbatim>\<open>handlers_query_validity_trigger\<close>\<close>

text \<open>
  A heap tuple is the list of its attributes, \<open>None\<close> for NULL; the trigger reads
  attribute 2 as text. \<^verbatim>\<open>SPI_getbinval\<close> reports an attribute number the tuple does
  not have as NULL.
\<close>

type_synonym heap_tuple = "string option list"

definition SPI_getbinval :: "heap_tuple \<Rightarrow> nat \<Rightarrow> string option" where
  "SPI_getbinval tuple fnumber =
     (if fnumber = 0 \<or> fnumber > length tuple then None else tuple ! (fnumber - 1))"

datatype validity = Valid | Invalid string

definition request_cte_sql :: string where
  "request_cte_sql =
     ''SELECT NULL::omni_httpd.http_method AS method, NULL::text AS path, NULL::text AS '' @
     ''query_string, NULL::bytea AS body, NULL::omni_httpd.http_header[] AS headers''"

text \<open>
  The three functions of the \<^verbatim>\<open>omni_sql\<close> extension are parameters, since only their
  declarations are at hand: \<open>omni_sql_parse_statement\<close> returns the statements of a
  text or raises; \<open>omni_sql_add_cte\<close> returns the statement list as it is after the
  call, which changes it in place, or raises; \<open>omni_sql_is_valid\<close> returns
  \<open>Invalid err\<close> where the C function returns false and sets \<^verbatim>\<open>err\<close>.
\<close>

definition handlers_query_validity_trigger ::
  "(string \<Rightarrow> error + 's list) \<Rightarrow>
   ('s list \<Rightarrow> string \<Rightarrow> 's list \<Rightarrow> bool \<Rightarrow> bool \<Rightarrow> error + 's list) \<Rightarrow>
   ('s list \<Rightarrow> validity) \<Rightarrow>
   heap_tuple trigger_data option \<Rightarrow> error + heap_tuple" where
  "handlers_query_validity_trigger omni_sql_parse_statement omni_sql_add_cte omni_sql_is_valid context =
     (case context of
        None \<Rightarrow> Inl OnlyAsTrigger
      | Some trigger_data \<Rightarrow>
          (case SPI_getbinval (tg_trigtuple trigger_data) 2 of
             None \<Rightarrow> Inl QueryCantBeNull
           | Some query \<Rightarrow>
               (case omni_sql_parse_statement query of
                  Inl e \<Rightarrow> Inl e
                | Inr stmts \<Rightarrow>
                    if length stmts \<noteq> 1 then Inl OnlyOneStatement
                    else
                      (case omni_sql_parse_statement request_cte_sql of
                         Inl e \<Rightarrow> Inl e
                       | Inr request_cte \<Rightarrow>
                           (case omni_sql_add_cte stmts ''request'' request_cte False True of
                              Inl e \<Rightarrow> Inl e
                            | Inr stmts' \<Rightarrow>
                                (case omni_sql_is_valid stmts' of
                                   Invalid err \<Rightarrow> Inl (InvalidQuery err)
                                 | Valid \<Rightarrow> Inr (tg_trigtuple trigger_data)))))))"

subsection \<open>An instance of the Datum: text and jsonb values\<close>

text \<open>
  \<^verbatim>\<open>http_response\<close> is stated for every Datum type and every printer of jsonb values.
  To run it, the Datum is instantiated with text values and jsonb values, and the
  printer with a model of PostgreSQL's jsonb output on a part of JSON: null, the
  booleans, integers, strings, arrays, and objects whose members are listed in the
  order in which jsonb stores them (shorter keys first, keys of one length by their
  bytes).
\<close>

datatype json = JNull | JBool bool | JNumber int | JString string
  | JArray "json list" | JObject "(string \<times> json) list"

datatype datum = TextDatum string | JsonbDatum json

text \<open>
  The output format: \<^verbatim>\<open>escape_json\<close> for strings and keys, members and elements
  separated by a comma and a space, a colon and a space behind a key.
\<close>

definition hex_digit :: "nat \<Rightarrow> char" where
  "hex_digit k = (if k < 10 then char_of (48 + k) else char_of (87 + k))"

definition escape_char :: "char \<Rightarrow> string" where
  "escape_char c =
     (if c = CHR 0x08 then [CHR 0x5C, CHR ''b'']
      else if c = CHR 0x0C then [CHR 0x5C, CHR ''f'']
      else if c = CHR 0x0A then [CHR 0x5C, CHR ''n'']
      else if c = CHR 0x0D then [CHR 0x5C, CHR ''r'']
      else if c = CHR 0x09 then [CHR 0x5C, CHR ''t'']
      else if c = CHR 0x22 then [CHR 0x5C, CHR 0x22]
      else if c = CHR 0x5C then [CHR 0x5C, CHR 0x5C]
      else if (of_char c :: nat) < 32 then
        [CHR 0x5C, CHR ''u'', CHR ''0'', CHR ''0'',
         hex_digit (of_char c div 16), hex_digit (of_char c mod 16)]
      else [c])"

definition escape_json :: "string \<Rightarrow> string" where
  "escape_json str = CHR 0x22 # concat (map escape_char str) @ [CHR 0x22]"

fun digits_of :: "nat \<Rightarrow> nat \<Rightarrow> string" where
  "digits_of 0 k = []"
| "digits_of (Suc fuel) k =
     (if k < 10 then [char_of (48 + k)]
      else digits_of fuel (k div 10) @ [char_of (48 + k mod 10)])"

definition numeric_out :: "int \<Rightarrow> string" where
  "numeric_out i =
     (if i < 0 then CHR ''-'' # digits_of (Suc (nat (- i))) (nat (- i))
      else digits_of (Suc (nat i)) (nat i))"

fun join :: "string \<Rightarrow> string list \<Rightarrow> string" where
  "join sep [] = []"
| "join sep [x] = x"
| "join sep (x # y # ys) = x @ sep @ join sep (y # ys)"

fun jsonb_out :: "json \<Rightarrow> string" where
  "jsonb_out JNull = ''null''"
| "jsonb_out (JBool b) = (if b then ''true'' else ''false'')"
| "jsonb_out (JNumber i) = numeric_out i"
| "jsonb_out (JString str) = escape_json str"
| "jsonb_out (JArray vs) = ''['' @ join '', '' (map jsonb_out vs) @ '']''"
| "jsonb_out (JObject ms) =
     ''{'' @ join '', '' (map (\<lambda>(k, v). escape_json k @ '': '' @ jsonb_out v) ms) @ ''}''"
















text \<open>
  The two parameters of \<^verbatim>\<open>http_response\<close> at this instance, and the input function
  of jsonb, which decodes a text Datum into a jsonb Datum. \<^verbatim>\<open>PG_GETARG_JSONB_P\<close> is
  applied to the Datum of a jsonb argument only, so the printer's value on a text
  Datum is never used.
\<close>

fun JsonbToCString_datum :: "datum \<Rightarrow> string" where
  "JsonbToCString_datum (JsonbDatum v) = jsonb_out v"
| "JsonbToCString_datum (TextDatum s) = []"






subsection \<open>The notions of the specification\<close>

text \<open>
  Equality of names without regard to case, a header that is a content type, the
  header sequence of a headers argument (none for NULL), the body types the response
  builder accepts, and the inference table: textual, bytes, JSON.
\<close>

definition ci_equal :: "string \<Rightarrow> string \<Rightarrow> bool" where
  "ci_equal a b = (map tolower a = map tolower b)"

definition is_content_type :: "http_header option \<Rightarrow> bool" where
  "is_content_type e =
     (case e of
        None \<Rightarrow> False
      | Some h \<Rightarrow> (case header_name h of None \<Rightarrow> False | Some n \<Rightarrow> ci_equal n ''content-type''))"

definition header_seq :: "array_type option \<Rightarrow> http_header option list" where
  "header_seq headers = (case headers of None \<Rightarrow> [] | Some a \<Rightarrow> elems a)"

definition supported_body_type :: "Oid \<Rightarrow> bool" where
  "supported_body_type t =
     (t = TEXTOID \<or> t = VARCHAROID \<or> t = CHAROID \<or> t = BYTEAOID \<or> t = JSONOID \<or> t = JSONBOID)"

definition inferred_content_type :: "Oid \<Rightarrow> string" where
  "inferred_content_type t =
     (if t = BYTEAOID then ''application/octet-stream''
      else if t = JSONOID \<or> t = JSONBOID then ''text/json''
      else ''text/plain; charset=utf-8'')"

text \<open>
  The arrays PostgreSQL builds: as many lower bounds as dimensions, every dimension
  positive, and as many elements as the dimensions say (none without a dimension).
\<close>

definition wf_array :: "array_type \<Rightarrow> bool" where
  "wf_array a =
     (length (lbound a) = length (dims a) \<and> list_all (\<lambda>d. 0 < sint d) (dims a) \<and>
      (if dims a = [] then elems a = []
       else int (length (elems a)) = prod_list (map sint (dims a))))"

definition wf_headers :: "array_type option \<Rightarrow> bool" where
  "wf_headers headers = (case headers of None \<Rightarrow> True | Some a \<Rightarrow> wf_array a)"

text \<open>
  The handler validator in the words of the specification: the text parses as
  exactly one statement, and the statement resolves once the \<^verbatim>\<open>request\<close> CTE is
  prepended.
\<close>

definition hv_accepts ::
  "(string \<Rightarrow> error + 's list) \<Rightarrow>
   ('s list \<Rightarrow> string \<Rightarrow> 's list \<Rightarrow> bool \<Rightarrow> bool \<Rightarrow> error + 's list) \<Rightarrow>
   ('s list \<Rightarrow> validity) \<Rightarrow> string \<Rightarrow> bool" where
  "hv_accepts parse add_cte is_valid S =
     (case (parse S, parse request_cte_sql) of
        (Inr [stmt], Inr cte) \<Rightarrow>
          (case add_cte [stmt] ''request'' cte False True of
             Inr with_cte \<Rightarrow> is_valid with_cte = Valid
           | Inl e \<Rightarrow> False)
      | _ \<Rightarrow> False)"

section \<open>Properties\<close>

subsection \<open>Auxiliary facts\<close>

lemmas oid_defs = TEXTOID_def VARCHAROID_def CHAROID_def BYTEAOID_def JSONOID_def JSONBOID_def

text \<open>
  \<^verbatim>\<open>strncasecmp\<close>, bounded by the length of its first argument, returns 0 as soon
  as the first argument is a prefix of the second up to case; all the more when the
  two are equal up to case.
\<close>

lemma strncasecmp_prefix:
  "length p1 \<le> length p2 \<Longrightarrow> map tolower p1 = map tolower (take (length p1) p2) \<Longrightarrow>
   strncasecmp p1 p2 (length p1) = 0"
proof (induction p1 arbitrary: p2)
  case Nil
  then show ?case by simp
next
  case (Cons c cs)
  then obtain d ds where p2: "p2 = d # ds" by (cases p2) auto
  with Cons.prems have "tolower c = tolower d" "length cs \<le> length ds"
    "map tolower cs = map tolower (take (length cs) ds)" by auto
  with Cons.IH[of ds] p2 show ?case by (simp add: deref_def Let_def)
qed

lemma strncasecmp_ci_equal:
  assumes "ci_equal p1 p2"
  shows "strncasecmp p1 p2 (length p1) = 0"
proof (rule strncasecmp_prefix)
  from assms have len: "length p1 = length p2"
    unfolding ci_equal_def by (rule map_eq_imp_length_eq)
  then show "length p1 \<le> length p2" by simp
  from assms len show "map tolower p1 = map tolower (take (length p1) p2)"
    by (simp add: ci_equal_def)
qed

lemma has_content_type_loop_present:
  "list_ex is_content_type es \<Longrightarrow> has_content_type_loop es"
proof (induction es rule: has_content_type_loop.induct)
  case 1
  then show ?case by simp
next
  case (2 rest)
  then show ?case by (simp add: is_content_type_def)
next
  case (3 tuple rest)
  show ?case
  proof (cases "header_name tuple")
    case None
    with 3 show ?thesis by (auto simp: is_content_type_def)
  next
    case (Some n)
    show ?thesis
    proof (cases "strncasecmp n ''content-type'' (length n) = 0")
      case True
      with Some show ?thesis by simp
    next
      case False
      then have "\<not> ci_equal n ''content-type''"
        using strncasecmp_ci_equal by blast
      with 3 Some False show ?thesis by (auto simp: is_content_type_def)
    qed
  qed
qed

text \<open>The checked addition returns the sum of the two integers, not a wrapped one.\<close>

lemma pg_add_s32_overflow_Some:
  "pg_add_s32_overflow a b = Some c \<Longrightarrow> sint c = sint a + sint b"
  by (auto simp: pg_add_s32_overflow_def Let_def sint_word_ariths signed_take_bit_int_eq_self
      split: if_splits)

lemma add_header_None:
  "add_header beyond None n v f =
     Inr \<lparr>dims = [1], lbound = [1],
          elems = [Some \<lparr>header_name = Some n, header_value = Some v, header_append = Some f\<rparr>]\<rparr>"
  by (simp add: add_header_def)

text \<open>
  On an empty array \<^verbatim>\<open>add_header\<close> fails only when the two ints it finds in memory
  add up to something out of range, or to the largest int; otherwise the result is
  the array of the one new header, whose lower bound is their sum.
\<close>

lemma add_header_empty:
  assumes "dims a = []" and "lbound a = []"
  shows "add_header beyond (Some a) n v f =
           (case pg_add_s32_overflow (fst beyond) (snd beyond) of
              None \<Rightarrow> Inl IntegerOutOfRange
            | Some indx \<Rightarrow>
                if sint indx + 1 > 2147483647 then Inl ArrayLowerBoundTooLarge
                else Inr \<lparr>dims = [1], lbound = [indx],
                          elems = [Some \<lparr>header_name = Some n, header_value = Some v,
                                         header_append = Some f\<rparr>]\<rparr>)"
  using assms by (simp add: add_header_def array_set_element_def split: option.splits)

text \<open>On an array as PostgreSQL builds them, empty or not, \<^verbatim>\<open>add_header\<close> appends.\<close>

lemma add_header_elems:
  assumes "wf_headers hs" and "add_header beyond hs n v f = Inr a'"
  shows "elems a' = header_seq hs @
           [Some \<lparr>header_name = Some n, header_value = Some v, header_append = Some f\<rparr>]"
proof (cases hs)
  case None
  with assms(2) show ?thesis by (auto simp: add_header_None header_seq_def)
next
  case (Some a)
  with assms(1) have wf: "wf_array a" by (simp add: wf_headers_def)
  show ?thesis
  proof (cases "dims a")
    case Nil
    with wf have "lbound a = []" "elems a = []" by (simp_all add: wf_array_def)
    with Nil assms(2) Some show ?thesis
      by (auto simp: add_header_empty header_seq_def split: option.splits if_splits)
  next
    case (Cons d0 ds)
    with wf obtain lb0 lbs where lb: "lbound a = lb0 # lbs"
      by (cases "lbound a") (auto simp: wf_array_def)
    from assms(2) Some Cons lb obtain indx where
      ov: "pg_add_s32_overflow lb0 d0 = Some indx" and
      set: "array_set_element a indx (Some \<lparr>header_name = Some n, header_value = Some v,
              header_append = Some f\<rparr>) = Inr a'"
      by (auto simp: add_header_def Let_def split: option.splits)
    from ov have indx: "sint indx = sint lb0 + sint d0" by (rule pg_add_s32_overflow_Some)
    from wf Cons have pos: "0 < sint d0" by (simp add: wf_array_def)
    from set lb Cons have one: "ds = []" "lbs = []"
      by (auto simp: array_set_element_def split: list.splits)
    with set lb Cons indx pos show ?thesis
      by (auto simp: array_set_element_def Let_def header_seq_def Some split: if_splits)
  qed
qed

text \<open>
  The arm shared by the body types, and \<^verbatim>\<open>http_response\<close> on a body that is not
  NULL, as one call of that arm.
\<close>

lemma infer_content_type_found:
  "has_content_type hs \<Longrightarrow>
   infer_content_type beyond s hs b ct
     = Inr \<lparr>response_status = s, response_headers = hs, response_body = Some b\<rparr>"
  by (simp add: infer_content_type_def)

lemma infer_content_type_absent:
  "\<not> has_content_type hs \<Longrightarrow>
   infer_content_type beyond s hs b ct
     = (case add_header beyond hs ''content-type'' ct False of
          Inl e \<Rightarrow> Inl e
        | Inr a \<Rightarrow> Inr \<lparr>response_status = s, response_headers = Some a, response_body = Some b\<rparr>)"
  by (simp add: infer_content_type_def)

lemma http_response_supported:
  assumes "supported_body_type t"
  shows "http_response J T beyond st hs (Some b) t
           = infer_content_type beyond (case st of None \<Rightarrow> 200 | Some s \<Rightarrow> s) hs
               (if t = JSONBOID then T (J b) else b) (inferred_content_type t)"
proof -
  have distinct: "JSONBOID \<noteq> TEXTOID" "JSONBOID \<noteq> VARCHAROID" "JSONBOID \<noteq> CHAROID"
    "JSONBOID \<noteq> BYTEAOID" "JSONBOID \<noteq> JSONOID" "BYTEAOID \<noteq> JSONOID"
    "BYTEAOID \<noteq> TEXTOID" "BYTEAOID \<noteq> VARCHAROID" "BYTEAOID \<noteq> CHAROID"
    "JSONOID \<noteq> TEXTOID" "JSONOID \<noteq> VARCHAROID" "JSONOID \<noteq> CHAROID"
    by (simp_all add: oid_defs)
  from assms consider "t = TEXTOID" | "t = VARCHAROID" | "t = CHAROID" | "t = BYTEAOID"
    | "t = JSONOID" | "t = JSONBOID"
    by (auto simp: supported_body_type_def)
  then show ?thesis
    using distinct distinct[symmetric]
    by cases (simp_all add: http_response_def inferred_content_type_def Let_def)
qed

lemma http_response_unsupported:
  "\<not> supported_body_type t \<Longrightarrow>
   http_response J T beyond st hs (Some b) t = Inl (CantCastToBytea t)"
  by (simp add: http_response_def supported_body_type_def)

lemma http_response_null_body:
  "http_response J T beyond st hs None t
     = Inr \<lparr>response_status = (case st of None \<Rightarrow> 200 | Some s \<Rightarrow> s),
            response_headers = hs, response_body = None\<rparr>"
  by (simp add: http_response_def Let_def)

text \<open>
  The body of a response, for every printer of jsonb values: the text Datum of what
  the printer prints for a jsonb argument, and the argument itself for every other
  type.
\<close>

lemma http_response_body:
  assumes "http_response J T beyond st hs (Some b) t = Inr r"
  shows "response_body r = Some (if t = JSONBOID then T (J b) else b)"
proof (cases "supported_body_type t")
  case False
  with assms show ?thesis by (simp add: http_response_unsupported)
next
  case True
  with assms show ?thesis
    by (cases "has_content_type hs")
      (auto simp: http_response_supported infer_content_type_found infer_content_type_absent
        split: sum.splits)
qed

subsection \<open>Reading back what the jsonb printer prints\<close>

































subsection \<open>The response builder\<close>

text \<open>
  C1. Claimed: with a body of a supported type and no header whose name equals
  \<^verbatim>\<open>content-type\<close> up to case, the returned headers hold exactly one such header, with
  the value of the inference table. The loop compares only as many bytes as the name
  has, so a name that is a proper prefix of \<^verbatim>\<open>content-type\<close> counts as one: for the
  single header \<^verbatim>\<open>('content', 'x', false)\<close> and a text body, no header of the
  argument is a content type, and the response carries the argument's headers
  unchanged, with no content type among them.
\<close>

theorem http_response_prefix_name_suppresses_inference:
  "\<not> list_ex is_content_type
       [Some \<lparr>header_name = Some ''content'', header_value = Some ''x'', header_append = Some False\<rparr>]
   \<and> http_response JsonbToCString_datum TextDatum beyond (Some 200)
       (Some \<lparr>dims = [1], lbound = [1],
              elems = [Some \<lparr>header_name = Some ''content'', header_value = Some ''x'',
                             header_append = Some False\<rparr>]\<rparr>)
       (Some (TextDatum ''hi'')) TEXTOID
     = Inr \<lparr>response_status = 200,
            response_headers =
              Some \<lparr>dims = [1], lbound = [1],
                    elems = [Some \<lparr>header_name = Some ''content'', header_value = Some ''x'',
                                   header_append = Some False\<rparr>]\<rparr>,
            response_body = Some (TextDatum ''hi'')\<rparr>"
  by (simp add: http_response_def infer_content_type_def has_content_type_def oid_defs
      deref_def tolower_def is_content_type_def ci_equal_def)

text \<open>
  What the loop does guarantee: when it finds no content type, in a supplied array
  as PostgreSQL builds them, a response that is returned holds exactly one header
  whose name equals \<^verbatim>\<open>content-type\<close> up to case, with the value of the inference
  table.
\<close>

lemma http_response_infers_one_content_type:
  assumes "wf_headers hs" and "\<not> has_content_type hs"
    and "http_response J T beyond st hs (Some b) t = Inr r"
  shows "filter is_content_type (header_seq (response_headers r)) =
           [Some \<lparr>header_name = Some ''content-type'',
                  header_value = Some (inferred_content_type t),
                  header_append = Some False\<rparr>]"
proof -
  from assms(3) have sup: "supported_body_type t"
    by (cases "supported_body_type t") (simp_all add: http_response_unsupported)
  from assms(2,3) obtain a' where
    a': "add_header beyond hs ''content-type'' (inferred_content_type t) False = Inr a'"
    and r: "response_headers r = Some a'"
    by (auto simp: http_response_supported[OF sup] infer_content_type_absent split: sum.splits)
  from assms(2) have "\<not> list_ex is_content_type (header_seq hs)"
    by (cases hs) (auto simp: header_seq_def has_content_type_def
        dest: has_content_type_loop_present)
  then have none: "filter is_content_type (header_seq hs) = []"
    by (simp add: list_ex_iff filter_empty_conv)
  have new: "is_content_type (Some \<lparr>header_name = Some ''content-type'',
                  header_value = Some (inferred_content_type t),
                  header_append = Some False\<rparr>)"
    by (simp add: is_content_type_def ci_equal_def)
  from add_header_elems [OF assms(1) a'] r none new show ?thesis
    by (simp add: header_seq_def)
qed




text \<open>
  C5. Where the supplied headers hold a header whose name equals \<^verbatim>\<open>content-type\<close>
  up to case, every call either returns a response that carries exactly the supplied
  headers (the same array, nothing added, removed or changed), or fails because the
  body is of an unsupported type. This holds for every status and every body, NULL
  or not.
\<close>

theorem http_response_keeps_supplied_content_type:
  assumes "list_ex is_content_type (header_seq hs)"
  shows "case http_response J T beyond st hs body t of
           Inr r \<Rightarrow> response_headers r = hs
         | Inl e \<Rightarrow> body \<noteq> None \<and> \<not> supported_body_type t \<and> e = CantCastToBytea t"
proof -
  from assms have found: "has_content_type hs"
    by (cases hs) (simp_all add: header_seq_def has_content_type_def has_content_type_loop_present)
  show ?thesis
  proof (cases body)
    case None
    then show ?thesis by (simp add: http_response_null_body)
  next
    case (Some b)
    show ?thesis
    proof (cases "supported_body_type t")
      case False
      with Some show ?thesis by (simp add: http_response_unsupported)
    next
      case True
      with Some found show ?thesis
        by (simp add: http_response_supported infer_content_type_found)
    qed
  qed
qed

text \<open>
  The header \<^verbatim>\<open>('Content-Type', 'application/xml', false)\<close> with the text body
  \<^verbatim>\<open><x/>\<close>.
\<close>

theorem http_response_keeps_supplied_content_type_witness:
  "list_ex is_content_type
     (header_seq (Some \<lparr>dims = [1], lbound = [1],
        elems = [Some \<lparr>header_name = Some ''Content-Type'',
                       header_value = Some ''application/xml'',
                       header_append = Some False\<rparr>]\<rparr>))
   \<and> http_response JsonbToCString_datum TextDatum (0, 0) None
       (Some \<lparr>dims = [1], lbound = [1],
          elems = [Some \<lparr>header_name = Some ''Content-Type'',
                         header_value = Some ''application/xml'',
                         header_append = Some False\<rparr>]\<rparr>)
       (Some (TextDatum ''<x/>'')) TEXTOID
     = Inr \<lparr>response_status = 200,
            response_headers =
              Some \<lparr>dims = [1], lbound = [1],
                 elems = [Some \<lparr>header_name = Some ''Content-Type'',
                                header_value = Some ''application/xml'',
                                header_append = Some False\<rparr>]\<rparr>,
            response_body = Some (TextDatum ''<x/>'')\<rparr>"
proof -
  let ?hs = "Some \<lparr>dims = [1], lbound = [1],
        elems = [Some \<lparr>header_name = Some ''Content-Type'',
                       header_value = Some ''application/xml'',
                       header_append = Some False\<rparr>]\<rparr>"
  have present: "list_ex is_content_type (header_seq ?hs)" by code_simp
  have run: "http_response JsonbToCString_datum TextDatum (0, 0) None ?hs
               (Some (TextDatum ''<x/>'')) TEXTOID
     = Inr \<lparr>response_status = 200, response_headers = ?hs,
            response_body = Some (TextDatum ''<x/>'')\<rparr>"
    by code_simp
  from http_response_keeps_supplied_content_type
      [OF present, where J = JsonbToCString_datum and T = TextDatum and beyond = "(0, 0)"
        and st = None and body = "Some (TextDatum ''<x/>'')" and t = TEXTOID]
    present run
  show ?thesis by simp
qed

text \<open>
  C6. When \<^verbatim>\<open>http_response\<close> infers a content type (the body is not NULL, its type is
  a supported one and the loop found no content type), every call either returns a
  response whose header sequence is the supplied sequence, every header unchanged and
  in its place, followed by one new last element, the header \<^verbatim>\<open>content-type\<close> with the
  inferred value and \<^verbatim>\<open>append = false\<close>; or it fails with the error that
  \<^verbatim>\<open>add_header\<close> raises. The supplied headers are NULL or an array as PostgreSQL
  builds them, the empty array among them.
\<close>

theorem http_response_appends_inferred_header:
  assumes "wf_headers hs" and "\<not> has_content_type hs" and "supported_body_type t"
  shows "case http_response J T beyond st hs (Some b) t of
           Inr r \<Rightarrow>
             header_seq (response_headers r) = header_seq hs @
               [Some \<lparr>header_name = Some ''content-type'',
                      header_value = Some (inferred_content_type t),
                      header_append = Some False\<rparr>]
         | Inl e \<Rightarrow>
             add_header beyond hs ''content-type'' (inferred_content_type t) False = Inl e"
proof (cases "add_header beyond hs ''content-type'' (inferred_content_type t) False")
  case (Inl e)
  with assms(2,3) show ?thesis
    by (simp add: http_response_supported infer_content_type_absent)
next
  case (Inr a')
  from add_header_elems [OF assms(1) Inr] Inr assms(2,3) show ?thesis
    by (simp add: http_response_supported infer_content_type_absent header_seq_def)
qed

text \<open>
  Two supplied elements, a header and a NULL, a status of 201 and a bytea body: the
  inferred header is the third element. An empty array and a text body, the two ints
  behind the header being 3 and 4: the inferred header is the only element.
\<close>

theorem http_response_appends_inferred_header_witness:
  "http_response JsonbToCString_datum TextDatum (0, 0) (Some 201)
       (Some \<lparr>dims = [2], lbound = [1],
          elems = [Some \<lparr>header_name = Some ''x-a'', header_value = Some ''1'',
                         header_append = Some True\<rparr>, None]\<rparr>)
       (Some (TextDatum ''abc'')) BYTEAOID
     = Inr \<lparr>response_status = 201,
            response_headers =
              Some \<lparr>dims = [3], lbound = [1],
                 elems = [Some \<lparr>header_name = Some ''x-a'', header_value = Some ''1'',
                                header_append = Some True\<rparr>, None,
                          Some \<lparr>header_name = Some ''content-type'',
                                header_value = Some ''application/octet-stream'',
                                header_append = Some False\<rparr>]\<rparr>,
            response_body = Some (TextDatum ''abc'')\<rparr>
   \<and> http_response JsonbToCString_datum TextDatum (3, 4) None
       (Some \<lparr>dims = [], lbound = [], elems = []\<rparr>) (Some (TextDatum ''hello'')) TEXTOID
     = Inr \<lparr>response_status = 200,
            response_headers =
              Some \<lparr>dims = [1], lbound = [7],
                 elems = [Some \<lparr>header_name = Some ''content-type'',
                                header_value = Some ''text/plain; charset=utf-8'',
                                header_append = Some False\<rparr>]\<rparr>,
            response_body = Some (TextDatum ''hello'')\<rparr>"
proof -
  let ?hs = "Some \<lparr>dims = [2], lbound = [1],
        elems = [Some \<lparr>header_name = Some ''x-a'', header_value = Some ''1'',
                       header_append = Some True\<rparr>, None]\<rparr>"
  let ?empty = "Some \<lparr>dims = [], lbound = [], elems = []\<rparr>"
  have wf: "wf_headers ?hs" "wf_headers ?empty" by code_simp+
  have absent: "\<not> has_content_type ?hs" "\<not> has_content_type ?empty" by code_simp+
  have sup: "supported_body_type BYTEAOID" "supported_body_type TEXTOID" by code_simp+
  have run1: "http_response JsonbToCString_datum TextDatum (0, 0) (Some 201) ?hs
       (Some (TextDatum ''abc'')) BYTEAOID
     = Inr \<lparr>response_status = 201,
            response_headers =
              Some \<lparr>dims = [3], lbound = [1],
                 elems = [Some \<lparr>header_name = Some ''x-a'', header_value = Some ''1'',
                                header_append = Some True\<rparr>, None,
                          Some \<lparr>header_name = Some ''content-type'',
                                header_value = Some ''application/octet-stream'',
                                header_append = Some False\<rparr>]\<rparr>,
            response_body = Some (TextDatum ''abc'')\<rparr>"
    by code_simp
  have run2: "http_response JsonbToCString_datum TextDatum (3, 4) None ?empty
       (Some (TextDatum ''hello'')) TEXTOID
     = Inr \<lparr>response_status = 200,
            response_headers =
              Some \<lparr>dims = [1], lbound = [7],
                 elems = [Some \<lparr>header_name = Some ''content-type'',
                                header_value = Some ''text/plain; charset=utf-8'',
                                header_append = Some False\<rparr>]\<rparr>,
            response_body = Some (TextDatum ''hello'')\<rparr>"
    by code_simp
  from http_response_appends_inferred_header
      [OF wf(1) absent(1) sup(1), where J = JsonbToCString_datum and T = TextDatum
        and beyond = "(0, 0)" and st = "Some 201" and b = "TextDatum ''abc''"]
    http_response_appends_inferred_header
      [OF wf(2) absent(2) sup(2), where J = JsonbToCString_datum and T = TextDatum
        and beyond = "(3, 4)" and st = None and b = "TextDatum ''hello''"]
    run1 run2
  show ?thesis by simp
qed

text \<open>
  C7. A call with a non-null body whose type is none of text, varchar, char, bytea,
  json and jsonb fails with the error of the default arm, whatever the status and
  the headers are; no response record is returned.
\<close>

theorem http_response_unsupported_body_type:
  assumes "\<not> supported_body_type t"
  shows "http_response J T beyond st hs (Some b) t = Inl (CantCastToBytea t)"
  using assms by (simp add: http_response_def supported_body_type_def)

text \<open>A body of type \<^verbatim>\<open>int4\<close>, whose Oid is 23.\<close>

theorem http_response_unsupported_body_type_witness:
  "\<not> supported_body_type 23 \<and>
   http_response JsonbToCString_datum TextDatum (0, 0) (Some 200) None (Some (TextDatum ''7'')) 23
     = Inl (CantCastToBytea 23)"
proof -
  have unsupported: "\<not> supported_body_type 23" by code_simp
  from http_response_unsupported_body_type
      [OF unsupported, of JsonbToCString_datum TextDatum "(0, 0)"]
    unsupported
  show ?thesis by simp
qed

text \<open>
  C8. No call with a NULL body fails. The headers of a response that is returned
  are NULL if and only if both the headers argument and the body argument are NULL.
  In particular NULL headers with a body never come back as an empty array: they
  come back as a one-dimensional array of one element.
\<close>

theorem http_response_headers_null_iff:
  "case http_response J T beyond st hs body t of
     Inr r \<Rightarrow>
       (response_headers r = None) = (hs = None \<and> body = None)
       \<and> (hs = None \<and> body \<noteq> None \<longrightarrow>
            (\<exists>a. response_headers r = Some a \<and> dims a = [1] \<and> length (elems a) = 1))
   | Inl e \<Rightarrow> body \<noteq> None"
proof (cases body)
  case None
  then show ?thesis by (simp add: http_response_null_body)
next
  case (Some b)
  show ?thesis
  proof (cases "supported_body_type t")
    case False
    with Some show ?thesis by (simp add: http_response_unsupported)
  next
    case True
    show ?thesis
    proof (cases "has_content_type hs")
      case found: True
      then have "hs \<noteq> None" by (cases hs) (simp_all add: has_content_type_def)
      with Some True found show ?thesis
        by (simp add: http_response_supported infer_content_type_found)
    next
      case absent: False
      with Some True show ?thesis
        by (cases hs)
          (auto simp: http_response_supported infer_content_type_absent add_header_None
            split: sum.splits)
    qed
  qed
qed

text \<open>
  No headers and no body; no headers and a text body; an empty array and no body; an
  empty array and a text body, the two ints behind the header being 3 and 4.
\<close>

theorem http_response_headers_null_iff_witness:
  "http_response JsonbToCString_datum TextDatum (0, 0) None None None TEXTOID
     = Inr \<lparr>response_status = 200, response_headers = None, response_body = None\<rparr>
   \<and> http_response JsonbToCString_datum TextDatum (0, 0) None None
        (Some (TextDatum ''hello'')) TEXTOID
     = Inr \<lparr>response_status = 200,
            response_headers =
              Some \<lparr>dims = [1], lbound = [1],
                 elems = [Some \<lparr>header_name = Some ''content-type'',
                                header_value = Some ''text/plain; charset=utf-8'',
                                header_append = Some False\<rparr>]\<rparr>,
            response_body = Some (TextDatum ''hello'')\<rparr>
   \<and> http_response JsonbToCString_datum TextDatum (0, 0) None
        (Some \<lparr>dims = [], lbound = [], elems = []\<rparr>) None TEXTOID
     = Inr \<lparr>response_status = 200,
            response_headers = Some \<lparr>dims = [], lbound = [], elems = []\<rparr>,
            response_body = None\<rparr>
   \<and> http_response JsonbToCString_datum TextDatum (3, 4) None
        (Some \<lparr>dims = [], lbound = [], elems = []\<rparr>) (Some (TextDatum ''hello'')) TEXTOID
     = Inr \<lparr>response_status = 200,
            response_headers =
              Some \<lparr>dims = [1], lbound = [7],
                 elems = [Some \<lparr>header_name = Some ''content-type'',
                                header_value = Some ''text/plain; charset=utf-8'',
                                header_append = Some False\<rparr>]\<rparr>,
            response_body = Some (TextDatum ''hello'')\<rparr>"
proof -
  let ?empty = "Some \<lparr>dims = [], lbound = [], elems = []\<rparr>"
  let ?ct = "\<lparr>header_name = Some ''content-type'',
                header_value = Some ''text/plain; charset=utf-8'',
                header_append = Some False\<rparr>"
  have run1: "http_response JsonbToCString_datum TextDatum (0, 0) None None None TEXTOID
     = Inr \<lparr>response_status = 200, response_headers = None, response_body = None\<rparr>"
    by code_simp
  have run2: "http_response JsonbToCString_datum TextDatum (0, 0) None None
        (Some (TextDatum ''hello'')) TEXTOID
     = Inr \<lparr>response_status = 200,
            response_headers = Some \<lparr>dims = [1], lbound = [1], elems = [Some ?ct]\<rparr>,
            response_body = Some (TextDatum ''hello'')\<rparr>"
    by code_simp
  have run3: "http_response JsonbToCString_datum TextDatum (0, 0) None ?empty None TEXTOID
     = Inr \<lparr>response_status = 200, response_headers = ?empty, response_body = None\<rparr>"
    by code_simp
  have run4: "http_response JsonbToCString_datum TextDatum (3, 4) None ?empty
        (Some (TextDatum ''hello'')) TEXTOID
     = Inr \<lparr>response_status = 200,
            response_headers = Some \<lparr>dims = [1], lbound = [7], elems = [Some ?ct]\<rparr>,
            response_body = Some (TextDatum ''hello'')\<rparr>"
    by code_simp
  from http_response_headers_null_iff
      [where J = JsonbToCString_datum and T = TextDatum and beyond = "(0, 0)" and st = None
        and hs = None and body = None and t = TEXTOID]
    http_response_headers_null_iff
      [where J = JsonbToCString_datum and T = TextDatum and beyond = "(3, 4)" and st = None
        and hs = ?empty and body = "Some (TextDatum ''hello'')" and t = TEXTOID]
    run1 run2 run3 run4
  show ?thesis by simp
qed

subsection \<open>\<^verbatim>\<open>add_header\<close>\<close>

text \<open>
  C10. On a header array that has a dimension, \<^verbatim>\<open>add_header\<close> computes the
  subscript as the first lower bound plus the first dimension under a check of the
  signed 32-bit range: when the sum leaves the range the call raises
  \<^verbatim>\<open>integer out of range\<close>; otherwise the subscript handed to
  \<^verbatim>\<open>array_set_element\<close> is the sum itself, never a wrapped one.
\<close>

theorem add_header_index_overflow_checked:
  assumes "lbound eah = lb0 # lbs" and "dims eah = d0 # ds"
  shows "if sint lb0 + sint d0 > 2147483647 \<or> sint lb0 + sint d0 < - 2147483648
         then add_header beyond (Some eah) n v f = Inl IntegerOutOfRange
              \<and> errmsg IntegerOutOfRange = ''integer out of range''
         else \<exists>indx. sint indx = sint lb0 + sint d0
                \<and> add_header beyond (Some eah) n v f =
                    array_set_element eah indx
                      (Some \<lparr>header_name = Some n, header_value = Some v,
                             header_append = Some f\<rparr>)"
proof (cases "pg_add_s32_overflow lb0 d0")
  case None
  then have "sint lb0 + sint d0 > 2147483647 \<or> sint lb0 + sint d0 < - 2147483648"
    by (auto simp: pg_add_s32_overflow_def Let_def split: if_splits)
  with None assms show ?thesis by (simp add: add_header_def)
next
  case (Some indx)
  then have "\<not> (sint lb0 + sint d0 > 2147483647 \<or> sint lb0 + sint d0 < - 2147483648)"
    by (auto simp: pg_add_s32_overflow_def Let_def split: if_splits)
  moreover from Some have "sint indx = sint lb0 + sint d0" by (rule pg_add_s32_overflow_Some)
  ultimately show ?thesis using Some assms by (auto simp: add_header_def)
qed

text \<open>
  One element at the lower bound \<open>2\<^sup>3\<^sup>1 - 1\<close>: the sum is out of range. One
  element at the lower bound 5: the header is stored at subscript 6.
\<close>

theorem add_header_index_overflow_checked_witness:
  "add_header (0, 0) (Some \<lparr>dims = [1], lbound = [2147483647], elems = [None]\<rparr>)
     ''content-type'' ''text/json'' False = Inl IntegerOutOfRange
   \<and> add_header (0, 0) (Some \<lparr>dims = [1], lbound = [5], elems = [None]\<rparr>)
     ''content-type'' ''text/json'' False
     = Inr \<lparr>dims = [2], lbound = [5],
            elems = [None, Some \<lparr>header_name = Some ''content-type'',
                                  header_value = Some ''text/json'',
                                  header_append = Some False\<rparr>]\<rparr>"
proof -
  let ?big = "\<lparr>dims = [1], lbound = [2147483647], elems = [None]\<rparr>"
  let ?small = "\<lparr>dims = [1], lbound = [5], elems = [None]\<rparr>"
  have "sint (2147483647 :: int32) + sint (1 :: int32) > 2147483647" by simp
  with add_header_index_overflow_checked
    [of ?big 2147483647 "[]" 1 "[]" "(0, 0)" "''content-type''" "''text/json''" False]
  have big: "add_header (0, 0) (Some ?big) ''content-type'' ''text/json'' False
               = Inl IntegerOutOfRange"
    by simp
  have small: "add_header (0, 0) (Some ?small) ''content-type'' ''text/json'' False
     = Inr \<lparr>dims = [2], lbound = [5],
            elems = [None, Some \<lparr>header_name = Some ''content-type'',
                                  header_value = Some ''text/json'',
                                  header_append = Some False\<rparr>]\<rparr>"
    by code_simp
  from big small show ?thesis by simp
qed

subsection \<open>The handler validity trigger\<close>

text \<open>
  The trigger reads the query from \<^verbatim>\<open>tg_trigtuple\<close> and returns \<^verbatim>\<open>tg_trigtuple\<close>;
  \<^verbatim>\<open>tg_newtuple\<close> has no part in what it does. For an INSERT \<^verbatim>\<open>tg_trigtuple\<close> is the
  row that is written. For an UPDATE it is the row as it was, and the row that is
  written is \<^verbatim>\<open>tg_newtuple\<close>, which \<^verbatim>\<open>reload_configuration\<close> does return.
\<close>

lemma handlers_query_validity_trigger_ignores_newtuple:
  "handlers_query_validity_trigger P A V (Some (td\<lparr>tg_newtuple := new\<rparr>))
     = handlers_query_validity_trigger P A V (Some td)"
  by (simp add: handlers_query_validity_trigger_def
      split: option.splits sum.splits validity.splits)

text \<open>
  On the row in \<^verbatim>\<open>tg_trigtuple\<close> the trigger does what the specification says of the
  candidate: a NULL query raises \<^verbatim>\<open>query can't be null\<close>, and a text is accepted, the
  row returned, if and only if it parses as exactly one statement that is valid once
  the \<^verbatim>\<open>request\<close> CTE is prepended.
\<close>

lemma handlers_query_validity_trigger_null_trigtuple:
  assumes "SPI_getbinval (tg_trigtuple td) 2 = None"
  shows "handlers_query_validity_trigger P A V (Some td) = Inl QueryCantBeNull
         \<and> errmsg QueryCantBeNull = ''query can't be null''"
  using assms by (simp add: handlers_query_validity_trigger_def)

lemma handlers_query_validity_trigger_trigtuple_iff:
  assumes "SPI_getbinval (tg_trigtuple td) 2 = Some S"
  shows "(handlers_query_validity_trigger P A V (Some td) = Inr (tg_trigtuple td))
           = hv_accepts P A V S
         \<and> (\<exists>e. handlers_query_validity_trigger P A V (Some td) = Inl e)
           = (\<not> hv_accepts P A V S)"
proof -
  have "handlers_query_validity_trigger P A V (Some td) =
          (if hv_accepts P A V S then Inr (tg_trigtuple td)
           else Inl (projl (handlers_query_validity_trigger P A V (Some td))))"
    using assms
    by (auto simp: handlers_query_validity_trigger_def hv_accepts_def
        split: sum.splits list.splits validity.splits)
  then show ?thesis by (metis Inl_Inr_False)
qed

text \<open>
  C9. Claimed: the trigger raises \<^verbatim>\<open>query can't be null\<close> whenever the query of the
  row being validated is NULL, so that a NULL query is never installed. For an UPDATE
  that sets the query of a row from \<^verbatim>\<open>SELECT 200\<close> to NULL, the trigger reads the
  old query, raises nothing and returns: with a parser and a validator that accept
  the old query, the new row has a NULL query and the call returns the old row.
\<close>

theorem handlers_query_validity_trigger_update_to_null:
  "SPI_getbinval [Some ''1'', None] 2 = None
   \<and> handlers_query_validity_trigger
        (\<lambda>q. if q = ''SELECT 1; SELECT 2;'' then Inr [''SELECT 1'', ''SELECT 2''] else Inr [q])
        (\<lambda>stmts name cte r p.
           Inr (map (\<lambda>s. ''WITH '' @ name @ '' AS ('' @ concat cte @ '') '' @ s) stmts))
        (\<lambda>stmts. Valid)
        (Some \<lparr>tg_trigtuple = [Some ''1'', Some ''SELECT 200''],
               tg_newtuple = Some [Some ''1'', None]\<rparr>)
      = Inr [Some ''1'', Some ''SELECT 200'']"
  by (simp add: handlers_query_validity_trigger_def SPI_getbinval_def)

text \<open>
  C4. Claimed: the trigger accepts a candidate text if and only if it parses as
  exactly one statement that is valid once the \<^verbatim>\<open>request\<close> CTE is prepended, and
  rejects the write otherwise. For an UPDATE that sets the query of a row from
  \<^verbatim>\<open>SELECT 200\<close> to \<^verbatim>\<open>SELECT 1; SELECT 2;\<close>, with a parser that finds two statements
  in the new text: the validator of the specification refuses the candidate, and the
  call returns the old row without an error.
\<close>

theorem handlers_query_validity_trigger_update_unvalidated:
  "SPI_getbinval [Some ''1'', Some ''SELECT 1; SELECT 2;''] 2 = Some ''SELECT 1; SELECT 2;''
   \<and> \<not> hv_accepts
        (\<lambda>q. if q = ''SELECT 1; SELECT 2;'' then Inr [''SELECT 1'', ''SELECT 2''] else Inr [q])
        (\<lambda>stmts name cte r p.
           Inr (map (\<lambda>s. ''WITH '' @ name @ '' AS ('' @ concat cte @ '') '' @ s) stmts))
        (\<lambda>stmts. Valid) ''SELECT 1; SELECT 2;''
   \<and> handlers_query_validity_trigger
        (\<lambda>q. if q = ''SELECT 1; SELECT 2;'' then Inr [''SELECT 1'', ''SELECT 2''] else Inr [q])
        (\<lambda>stmts name cte r p.
           Inr (map (\<lambda>s. ''WITH '' @ name @ '' AS ('' @ concat cte @ '') '' @ s) stmts))
        (\<lambda>stmts. Valid)
        (Some \<lparr>tg_trigtuple = [Some ''1'', Some ''SELECT 200''],
               tg_newtuple = Some [Some ''1'', Some ''SELECT 1; SELECT 2;'']\<rparr>)
      = Inr [Some ''1'', Some ''SELECT 200'']"
  by (simp add: handlers_query_validity_trigger_def SPI_getbinval_def hv_accepts_def
      request_cte_sql_def)

subsection \<open>The configuration trigger\<close>

text \<open>
  C3 as claimed fails: a call from a backend without pending notifications, the
  semaphore at 0, queues the notification and leaves the semaphore at 0, not at 1.
\<close>

theorem reload_configuration_leaves_semaphore:
  "reload_configuration ''omni_httpd'' (None :: heap_tuple trigger_data option)
      \<lparr>notifications = [], semaphore = 0\<rparr>
     = (BoolDatum True, \<lparr>notifications = [(''omni_httpd'', None)], semaphore = 0\<rparr>)
   \<and> semaphore (snd (reload_configuration ''omni_httpd'' (None :: heap_tuple trigger_data option)
        \<lparr>notifications = [], semaphore = 0\<rparr>))
     \<noteq> semaphore \<lparr>notifications = [], semaphore = 0\<rparr> + 1"
  by (simp add: reload_configuration_def Async_Notify_def)

text \<open>
  C3, amended. Every call of \<^verbatim>\<open>reload_configuration\<close> leaves a notification without
  payload on the channel pending and leaves the semaphore as it was. It returns the
  new tuple of the trigger when called as one, and true otherwise.
\<close>

theorem reload_configuration_effect:
  "(NOTIFY_CHANNEL, None) \<in> set (notifications (snd (reload_configuration NOTIFY_CHANNEL context st)))
   \<and> semaphore (snd (reload_configuration NOTIFY_CHANNEL context st)) = semaphore st
   \<and> fst (reload_configuration NOTIFY_CHANNEL context st)
       = (case context of Some trigger \<Rightarrow> PointerDatum (tg_newtuple trigger)
          | None \<Rightarrow> BoolDatum True)"
  by (simp add: reload_configuration_def Async_Notify_def Let_def split: option.splits)

text \<open>A trigger call for an UPDATE, the semaphore at 7.\<close>

theorem reload_configuration_effect_witness:
  "reload_configuration ''omni_httpd''
      (Some \<lparr>tg_trigtuple = [Some ''1'', Some ''SELECT 200''],
             tg_newtuple = Some [Some ''1'', Some ''SELECT 201'']\<rparr>)
      \<lparr>notifications = [], semaphore = 7\<rparr>
     = (PointerDatum (Some [Some ''1'', Some ''SELECT 201'']),
        \<lparr>notifications = [(''omni_httpd'', None)], semaphore = 7\<rparr>)"
proof -
  let ?td = "\<lparr>tg_trigtuple = [Some ''1'', Some ''SELECT 200''],
             tg_newtuple = Some [Some ''1'', Some ''SELECT 201'']\<rparr>"
  let ?st = "\<lparr>notifications = [], semaphore = 7\<rparr>"
  have posted: "notifications (snd (reload_configuration ''omni_httpd'' (Some ?td) ?st))
                  = [(''omni_httpd'', None)]"
    by (simp add: reload_configuration_def Async_Notify_def)
  from reload_configuration_effect [of "''omni_httpd''" "Some ?td" ?st] posted
  show ?thesis
    by (cases "reload_configuration ''omni_httpd'' (Some ?td) ?st",
        cases "snd (reload_configuration ''omni_httpd'' (Some ?td) ?st)") auto
qed

end
